theory Spec2Isabelle
  imports Main "HOL-Library.Word" "HOL-Library.AList"
begin

section \<open>Line tokenization adapter (standaloneLanguages.ts)\<close>

text \<open>
  JavaScript numbers that hold token offsets are modelled as \<open>int\<close> (integral values,
  added exactly); the entries of a \<open>Uint32Array\<close> are \<open>32 word\<close>, and storing a
  number into it is \<open>word_of_int\<close> (reduction modulo \<open>2 ^ 32\<close>). Tokenization states
  are object references: equality in HOL on the state type is reference identity, and the
  object's own \<open>equals\<close> method is an arbitrary function on references.
\<close>

record IToken =
  startIndex :: int
  scopes :: string

text \<open>
  The classic token class is imported from the editor core (\<open>vs/editor/common/core/token\<close>)
  and is not among the sources here. Its constructor is
  \<open>this.offset = offset | 0; this.type = type; this.language = language\<close>: the offset is
  converted to a signed 32-bit integer, the other two arguments are stored as they are.
\<close>

record Token =
  offset :: int
  tokenType :: string
  language :: string

definition newToken :: "int \<Rightarrow> string \<Rightarrow> string \<Rightarrow> Token" where
  "newToken off ty lang =
     \<lparr>offset = sint (word_of_int off :: 32 word), tokenType = ty, language = lang\<rparr>"

text \<open>
  The loop of \<open>_toClassicTokens\<close>: \<open>i\<close> is the loop index, \<open>result\<close> the array built
  so far (always of length \<open>i\<close>, so that \<open>result[i] = ...\<close> appends).
\<close>

fun toClassicLoop :: "string \<Rightarrow> int \<Rightarrow> IToken list \<Rightarrow> nat \<Rightarrow> Token list \<Rightarrow> int \<Rightarrow> Token list" where
  "toClassicLoop lang offsetDelta [] i result previousStartIndex = result"
| "toClassicLoop lang offsetDelta (t # ts) i result previousStartIndex =
     (let si = (if i = 0 then 0
                else if startIndex t < previousStartIndex then previousStartIndex
                else startIndex t)
      in toClassicLoop lang offsetDelta ts (Suc i)
           (result @ [newToken (si + offsetDelta) (scopes t) lang]) si)"

definition toClassicTokens :: "IToken list \<Rightarrow> string \<Rightarrow> int \<Rightarrow> Token list" where
  "toClassicTokens tokens lang offsetDelta = toClassicLoop lang offsetDelta tokens 0 [] 0"

text \<open>
  The loop of \<open>_toBinaryTokens\<close>. \<open>matchFn\<close> is \<open>tokenTheme.match\<close> of the active theme,
  which returns the packed 32-bit metadata word. \<open>result\<close> is the \<open>number[]\<close> array and
  \<open>resultLen\<close> is its length; the test \<open>result[resultLen - 1] === metadata\<close> comes
  before the offset correction, and a skipped token leaves \<open>previousStartIndex\<close> alone.
\<close>

fun toBinaryLoop :: "(int \<Rightarrow> string \<Rightarrow> 32 word) \<Rightarrow> int \<Rightarrow> int \<Rightarrow> IToken list \<Rightarrow> nat \<Rightarrow> int list \<Rightarrow> int \<Rightarrow> int list" where
  "toBinaryLoop matchFn languageId offsetDelta [] i result previousStartIndex = result"
| "toBinaryLoop matchFn languageId offsetDelta (t # ts) i result previousStartIndex =
     (let metadata = uint (matchFn languageId (scopes t))
      in if length result > 0 \<and> result ! (length result - 1) = metadata
         then toBinaryLoop matchFn languageId offsetDelta ts (Suc i) result previousStartIndex
         else (let si = (if i = 0 then 0
                         else if startIndex t < previousStartIndex then previousStartIndex
                         else startIndex t)
               in toBinaryLoop matchFn languageId offsetDelta ts (Suc i)
                    (result @ [si + offsetDelta, metadata]) si))"

text \<open>The copy loop into \<open>new Uint32Array(resultLen)\<close> converts every entry.\<close>

definition toBinaryTokens :: "(int \<Rightarrow> string \<Rightarrow> 32 word) \<Rightarrow> int \<Rightarrow> IToken list \<Rightarrow> int \<Rightarrow> 32 word list" where
  "toBinaryTokens matchFn languageId tokens offsetDelta =
     map word_of_int (toBinaryLoop matchFn languageId offsetDelta tokens 0 [] 0)"

record 's ILineTokens =
  lineTokens :: "IToken list"
  endState :: 's

record 's TokensProvider =
  getInitialState :: 's
  providerTokenize :: "string \<Rightarrow> 's \<Rightarrow> 's ILineTokens"

record 's TokenizationResult =
  classicTokens :: "Token list"
  classicEndState :: 's

record 's TokenizationResult2 =
  binaryTokens :: "32 word list"
  binaryEndState :: 's

text \<open>
  The adapter object: the match function of the theme service's current token theme, the
  two fields of the language identifier, and the wrapped provider.
\<close>

record 's TokenizationSupport2Adapter =
  themeMatch :: "int \<Rightarrow> string \<Rightarrow> 32 word"
  identifierLanguage :: string
  identifierId :: int
  actual :: "'s TokensProvider"

definition tokenize :: "('s \<Rightarrow> 's \<Rightarrow> bool) \<Rightarrow> 's TokenizationSupport2Adapter \<Rightarrow> string \<Rightarrow> 's \<Rightarrow> int \<Rightarrow> 's TokenizationResult" where
  "tokenize stateEquals adapter line state offsetDelta =
     (let actualResult = providerTokenize (actual adapter) line state;
          toks = toClassicTokens (lineTokens actualResult) (identifierLanguage adapter) offsetDelta;
          es = (if stateEquals (endState actualResult) state then state else endState actualResult)
      in \<lparr>classicTokens = toks, classicEndState = es\<rparr>)"

definition tokenize2 :: "('s \<Rightarrow> 's \<Rightarrow> bool) \<Rightarrow> 's TokenizationSupport2Adapter \<Rightarrow> string \<Rightarrow> 's \<Rightarrow> int \<Rightarrow> 's TokenizationResult2" where
  "tokenize2 stateEquals adapter line state offsetDelta =
     (let actualResult = providerTokenize (actual adapter) line state;
          toks = toBinaryTokens (themeMatch adapter) (identifierId adapter) (lineTokens actualResult) offsetDelta;
          es = (if stateEquals (endState actualResult) state then state else endState actualResult)
      in \<lparr>binaryTokens = toks, binaryEndState = es\<rparr>)"

section \<open>Registration of a Monarch tokens provider (standaloneLanguages.ts)\<close>

text \<open>
  \<open>setMonarchTokensProvider\<close> acts on the host and on the tokenization registry only.
  Its effects are recorded in order; an exception is the left summand. The host either
  defines the global function \<open>alert\<close> (a browser window, where the call opens a modal
  dialog) or does not (a worker or a server-side host, where the call raises a
  ReferenceError). \<open>compile\<close> is the grammar compiler, which lives outside this
  repository and may reject a definition. Chaining the continuation onto the thenable
  belongs to the registration of the promise and is not recorded on its own.
\<close>

datatype ('l, 'p) LanguageDef = Immediate 'l | Thenable 'p

datatype Effect = Alert | RegisterPromise string | Register string

datatype JsError = ReferenceError string | CompileError string

datatype IDisposable = Disposable string

record Host =
  alertDefined :: bool

definition setMonarchTokensProvider ::
  "(string \<Rightarrow> 'l \<Rightarrow> JsError + 'x) \<Rightarrow> Host \<Rightarrow> string \<Rightarrow> ('l, 'p) LanguageDef
     \<Rightarrow> JsError + (IDisposable \<times> Effect list)" where
  "setMonarchTokensProvider compile host languageId languageDef =
     (case languageDef of
        Thenable p \<Rightarrow>
          (if alertDefined host
           then Inr (Disposable languageId, [Alert, RegisterPromise languageId])
           else Inl (ReferenceError ''alert''))
      | Immediate d \<Rightarrow>
          (case compile languageId d of
             Inl e \<Rightarrow> Inl e
           | Inr lexer \<Rightarrow> Inr (Disposable languageId, [Register languageId])))"

section \<open>Color registry\<close>

text \<open>
  The color class and its hex parser live outside this repository: colors are values of a
  type parameter \<open>'c\<close> and \<open>Color.fromHex\<close> is the parameter \<open>fromHex\<close>. A theme is
  the capability the registry consumes: its type and its \<open>getColor\<close>. A color value is
  null, a string, a color or a function of the theme.

  Every \<open>_onDidChangeSchema.fire()\<close> is counted in \<open>schemaChangeEvents\<close>.
\<close>

subsection \<open>Plain objects used as dictionaries\<close>

text \<open>
  \<open>colorsById\<close> and \<open>colorSchema.properties\<close> are plain JavaScript objects. Such an
  object has its own properties, listed by \<open>Object.keys\<close> in the order of their creation,
  and a prototype. An assignment \<open>o[k] = v\<close> creates or overwrites the own property
  \<open>k\<close>, except for the key \<open>__proto__\<close>, where it replaces the prototype by the
  object \<open>v\<close> and creates no own property; \<open>delete o[k]\<close> removes an own property
  and never touches the prototype. The prototype is \<open>None\<close> while it is still
  \<open>Object.prototype\<close>.

  A read \<open>o[k]\<close> gives the own property if there is one. Otherwise the key
  \<open>__proto__\<close> gives the prototype, and any other key gives what the prototype chain
  holds under it: a field of the object stored as prototype or a member of
  \<open>Object.prototype\<close>, or undefined. None of these is a contribution with defaults, and
  \<open>colorDesc && colorDesc.defaults\<close> fails for each of them, so the read is modelled as
  \<open>None\<close> there. The order in which \<open>Object.keys\<close> lists keys that are array
  indices is not modelled.
\<close>

record 'v JsObject =
  ownProperties :: "(string \<times> 'v) list"
  prototype :: "'v option"

definition emptyObject :: "'v JsObject" where
  "emptyObject = \<lparr>ownProperties = [], prototype = None\<rparr>"

definition assign :: "string \<Rightarrow> 'v \<Rightarrow> 'v JsObject \<Rightarrow> 'v JsObject" where
  "assign k v obj =
     (if k = ''__proto__'' then obj\<lparr>prototype := Some v\<rparr>
      else obj\<lparr>ownProperties := AList.update k v (ownProperties obj)\<rparr>)"

definition deleteProperty :: "string \<Rightarrow> 'v JsObject \<Rightarrow> 'v JsObject" where
  "deleteProperty k obj = obj\<lparr>ownProperties := AList.delete k (ownProperties obj)\<rparr>"

definition objectKeys :: "'v JsObject \<Rightarrow> string list" where
  "objectKeys obj = map fst (ownProperties obj)"

definition getProperty :: "'v JsObject \<Rightarrow> string \<Rightarrow> 'v option" where
  "getProperty obj k =
     (case map_of (ownProperties obj) k of
        Some v \<Rightarrow> Some v
      | None \<Rightarrow> if k = ''__proto__'' then prototype obj else None)"

subsection \<open>The registry\<close>

datatype ThemeType = LIGHT | DARK | HIGH_CONTRAST

record 'c ITheme =
  type :: ThemeType
  getColor :: "string \<Rightarrow> 'c option"

datatype 'c ColorValue =
    NullValue
  | StringValue string
  | ColorObject 'c
  | ColorFunction "'c ITheme \<Rightarrow> 'c option"

record 'c ColorDefaults =
  light :: "'c ColorValue"
  dark :: "'c ColorValue"
  hc :: "'c ColorValue"

fun defaultsAt :: "'c ColorDefaults \<Rightarrow> ThemeType \<Rightarrow> 'c ColorValue" where
  "defaultsAt d LIGHT = light d"
| "defaultsAt d DARK = dark d"
| "defaultsAt d HIGH_CONTRAST = hc d"

record 'c ColorContribution =
  colorId :: string
  description :: string
  defaults :: "'c ColorDefaults option"
  needsTransparency :: bool
  deprecationMessage :: "string option"

record PropertySchema =
  schemaType :: string
  schemaDescription :: string
  schemaFormat :: string
  schemaDefault :: string
  schemaDeprecationMessage :: "string option"

record 'c ColorRegistry =
  colorsById :: "'c ColorContribution JsObject"
  colorSchemaProperties :: "PropertySchema JsObject"
  colorReferenceEnum :: "string list"
  colorReferenceEnumDescriptions :: "string list"
  schemaChangeEvents :: nat

definition newColorRegistry :: "'c ColorRegistry" where
  "newColorRegistry =
     \<lparr>colorsById = emptyObject, colorSchemaProperties = emptyObject, colorReferenceEnum = [],
      colorReferenceEnumDescriptions = [], schemaChangeEvents = 0\<rparr>"

definition resolveColorValue :: "(string \<Rightarrow> 'c) \<Rightarrow> 'c ColorValue \<Rightarrow> 'c ITheme \<Rightarrow> 'c option" where
  "resolveColorValue fromHex colorValue theme =
     (case colorValue of
        NullValue \<Rightarrow> None
      | StringValue s \<Rightarrow>
          (if s \<noteq> [] \<and> hd s = CHR ''#'' then Some (fromHex s) else getColor theme s)
      | ColorObject c \<Rightarrow> Some c
      | ColorFunction f \<Rightarrow> f theme)"

definition registerColor ::
  "string \<Rightarrow> 'c ColorDefaults option \<Rightarrow> string \<Rightarrow> bool \<Rightarrow> string option \<Rightarrow> 'c ColorRegistry
     \<Rightarrow> string \<times> 'c ColorRegistry" where
  "registerColor ident dflts descr transparency deprecation reg =
     (let colorContribution =
            \<lparr>colorId = ident, description = descr, defaults = dflts,
             needsTransparency = transparency, deprecationMessage = deprecation\<rparr>;
          propertySchema =
            \<lparr>schemaType = ''string'', schemaDescription = descr, schemaFormat = ''color-hex'',
             schemaDefault = ''#ff0000'',
             schemaDeprecationMessage =
               (case deprecation of None \<Rightarrow> None | Some m \<Rightarrow> if m = [] then None else Some m)\<rparr>
      in (ident,
          reg\<lparr>colorsById := assign ident colorContribution (colorsById reg),
              colorSchemaProperties := assign ident propertySchema (colorSchemaProperties reg),
              colorReferenceEnum := colorReferenceEnum reg @ [ident],
              colorReferenceEnumDescriptions := colorReferenceEnumDescriptions reg @ [descr],
              schemaChangeEvents := Suc (schemaChangeEvents reg)\<rparr>))"

text \<open>\<open>Array.prototype.indexOf\<close> and \<open>splice(start, deleteCount)\<close>.\<close>

fun indexOf :: "'a list \<Rightarrow> 'a \<Rightarrow> int" where
  "indexOf [] x = - 1"
| "indexOf (y # ys) x =
     (if y = x then 0 else (let r = indexOf ys x in if r = - 1 then - 1 else r + 1))"

definition spliceOut :: "nat \<Rightarrow> nat \<Rightarrow> 'a list \<Rightarrow> 'a list" where
  "spliceOut start deleteCount xs = take start xs @ drop (start + deleteCount) xs"

definition deregisterColor :: "string \<Rightarrow> 'c ColorRegistry \<Rightarrow> 'c ColorRegistry" where
  "deregisterColor ident reg =
     (let index = indexOf (colorReferenceEnum reg) ident
      in reg\<lparr>colorsById := deleteProperty ident (colorsById reg),
             colorSchemaProperties := deleteProperty ident (colorSchemaProperties reg),
             colorReferenceEnum :=
               (if index \<noteq> - 1 then spliceOut (nat index) 1 (colorReferenceEnum reg)
                else colorReferenceEnum reg),
             colorReferenceEnumDescriptions :=
               (if index \<noteq> - 1 then spliceOut (nat index) 1 (colorReferenceEnumDescriptions reg)
                else colorReferenceEnumDescriptions reg),
             schemaChangeEvents := Suc (schemaChangeEvents reg)\<rparr>)"

definition getColors :: "'c ColorRegistry \<Rightarrow> 'c ColorContribution list" where
  "getColors reg = List.map_filter (getProperty (colorsById reg)) (objectKeys (colorsById reg))"

definition resolveDefaultColor :: "(string \<Rightarrow> 'c) \<Rightarrow> 'c ColorRegistry \<Rightarrow> string \<Rightarrow> 'c ITheme \<Rightarrow> 'c option" where
  "resolveDefaultColor fromHex reg ident theme =
     (case getProperty (colorsById reg) ident of
        None \<Rightarrow> None
      | Some colorDesc \<Rightarrow>
          (case defaults colorDesc of
             None \<Rightarrow> None
           | Some d \<Rightarrow> resolveColorValue fromHex (defaultsAt d (type theme)) theme))"

text \<open>The registry states in use: a fresh registry after a sequence of calls.\<close>

datatype 'c RegistryCall =
    RegisterColor string "'c ColorDefaults option" string bool "string option"
  | DeregisterColor string

fun call :: "'c RegistryCall \<Rightarrow> 'c ColorRegistry \<Rightarrow> 'c ColorRegistry" where
  "call (RegisterColor ident dflts descr transparency deprecation) reg =
     snd (registerColor ident dflts descr transparency deprecation reg)"
| "call (DeregisterColor ident) reg = deregisterColor ident reg"

definition registryAfter :: "'c RegistryCall list \<Rightarrow> 'c ColorRegistry" where
  "registryAfter calls = fold call calls newColorRegistry"

section \<open>Notions used in the statements\<close>

text \<open>
  The raw tokens that survive deduplication, in the spec's words: the first token, and
  every later token whose metadata differs from the metadata of the entry emitted last
  before it.
\<close>

fun keptAfter :: "(IToken \<Rightarrow> 32 word) \<Rightarrow> 32 word \<Rightarrow> IToken list \<Rightarrow> IToken list" where
  "keptAfter meta previous [] = []"
| "keptAfter meta previous (t # ts) =
     (if meta t = previous then keptAfter meta previous ts else t # keptAfter meta (meta t) ts)"

fun keptTokens :: "(IToken \<Rightarrow> 32 word) \<Rightarrow> IToken list \<Rightarrow> IToken list" where
  "keptTokens meta [] = []"
| "keptTokens meta (t # ts) = t # keptAfter meta (meta t) ts"

text \<open>
  The offset sanitation in the spec's words: the token at index 0 starts at 0, and every
  later token starts at its reported start index or at the previous corrected start index,
  whichever is larger. \<open>i\<close> is the index of the first token of the list and \<open>p\<close> the
  corrected start index before it.
\<close>

fun correctedStarts :: "IToken list \<Rightarrow> nat \<Rightarrow> int \<Rightarrow> int list" where
  "correctedStarts [] i p = []"
| "correctedStarts (t # ts) i p =
     (let s = (if i = 0 then 0 else max p (startIndex t)) in s # correctedStarts ts (Suc i) s)"

text \<open>The number of maximal runs of equal consecutive elements.\<close>

fun runs :: "'a list \<Rightarrow> nat" where
  "runs [] = 0"
| "runs [x] = 1"
| "runs (x # y # zs) = (if x = y then runs (y # zs) else Suc (runs (y # zs)))"

text \<open>The entries at even positions of an encoded stream: the start indices.\<close>

fun startIndices :: "'a list \<Rightarrow> 'a list" where
  "startIndices [] = []"
| "startIndices [x] = [x]"
| "startIndices (x # y # zs) = x # startIndices zs"

text \<open>
  A kept raw token with its corrected start index, written as the two numbers of a binary
  entry, and a classic token written as the two stored words.
\<close>

fun encodeStart :: "(int \<Rightarrow> string \<Rightarrow> 32 word) \<Rightarrow> int \<Rightarrow> int \<Rightarrow> IToken \<times> int \<Rightarrow> int list" where
  "encodeStart matchFn languageId d (t, s) = [s + d, uint (matchFn languageId (scopes t))]"

definition encodeWord :: "(int \<Rightarrow> string \<Rightarrow> 32 word) \<Rightarrow> int \<Rightarrow> Token \<Rightarrow> 32 word list" where
  "encodeWord matchFn languageId tok = [word_of_int (offset tok), matchFn languageId (tokenType tok)]"

section \<open>Sample inputs\<close>

definition sampleMatch :: "int \<Rightarrow> string \<Rightarrow> 32 word" where
  "sampleMatch languageId sc = (if sc = ''a'' then 1 else 2)"

definition outOfOrderTokens :: "IToken list" where
  "outOfOrderTokens =
     [\<lparr>startIndex = 0, scopes = ''x''\<rparr>, \<lparr>startIndex = 5, scopes = ''y''\<rparr>, \<lparr>startIndex = 2, scopes = ''z''\<rparr>]"

definition skippedTokens :: "IToken list" where
  "skippedTokens =
     [\<lparr>startIndex = 0, scopes = ''a''\<rparr>, \<lparr>startIndex = 10, scopes = ''a''\<rparr>, \<lparr>startIndex = 5, scopes = ''b''\<rparr>]"

definition twoTokens :: "IToken list" where
  "twoTokens = [\<lparr>startIndex = 0, scopes = ''a''\<rparr>, \<lparr>startIndex = 1, scopes = ''b''\<rparr>]"

definition sameStyleTokens :: "IToken list" where
  "sameStyleTokens =
     [\<lparr>startIndex = 0, scopes = ''a''\<rparr>, \<lparr>startIndex = 3, scopes = ''a''\<rparr>, \<lparr>startIndex = 7, scopes = ''a''\<rparr>]"

definition sampleStateEquals :: "nat \<Rightarrow> nat \<Rightarrow> bool" where
  "sampleStateEquals a b = (a div 10 = b div 10)"

definition sampleAdapter :: "nat TokenizationSupport2Adapter" where
  "sampleAdapter =
     \<lparr>themeMatch = sampleMatch, identifierLanguage = ''lang'', identifierId = 1,
      actual = \<lparr>getInitialState = 0,
                providerTokenize = (\<lambda>line st. \<lparr>lineTokens = twoTokens, endState = Suc st\<rparr>)\<rparr>\<rparr>"

text \<open>Colors named by their hex text, for the concrete registries and themes below.\<close>

definition hexText :: "string \<Rightarrow> string" where
  "hexText s = s"

definition blueDarkTheme :: "string ITheme" where
  "blueDarkTheme = \<lparr>type = DARK, getColor = (\<lambda>i. if i = ''a'' then Some ''#0000FF'' else None)\<rparr>"

definition twiceRegistered :: "string ColorRegistry" where
  "twiceRegistered =
     registryAfter [RegisterColor ''a'' None ''first'' False None,
                    RegisterColor ''a'' None ''second'' False None]"

definition sampleCompile :: "string \<Rightarrow> string \<Rightarrow> JsError + string" where
  "sampleCompile languageId d = (if d = [] then Inl (CompileError languageId) else Inr d)"

definition redThenReference :: "string RegistryCall list" where
  "redThenReference =
     [RegisterColor ''a''
        (Some \<lparr>light = NullValue, dark = StringValue ''#FF0000'', hc = NullValue\<rparr>) ''red'' False None,
      RegisterColor ''b''
        (Some \<lparr>light = NullValue, dark = StringValue ''a'', hc = NullValue\<rparr>) ''as a'' False None]"

definition defaultingDarkTheme :: "string ITheme" where
  "defaultingDarkTheme =
     \<lparr>type = DARK,
      getColor = (\<lambda>i. resolveDefaultColor hexText (registryAfter redThenReference) i
                        \<lparr>type = DARK, getColor = (\<lambda>j. None)\<rparr>)\<rparr>"



definition paletteDefaults :: "string ColorDefaults" where
  "paletteDefaults =
     \<lparr>light = StringValue ''#00FF00'', dark = ColorObject ''#111111'',
      hc = ColorFunction (\<lambda>th. getColor th ''a'')\<rparr>"




definition protoRegistered :: "string ColorRegistry" where
  "protoRegistered =
     registryAfter [RegisterColor ''__proto__'' (Some paletteDefaults) ''palette'' False None]"

section \<open>Proofs about the classic form\<close>

lemma toClassicLoop_append:
  "toClassicLoop lang d ts i (r1 @ r2) p = r1 @ toClassicLoop lang d ts i r2 p"
  by (induction ts arbitrary: i r2 p) (simp_all add: Let_def)

lemma toClassicLoop_Cons:
  "toClassicLoop lang d (t # ts) i [] p =
     (let si = (if i = 0 then 0 else if startIndex t < p then p else startIndex t)
      in newToken (si + d) (scopes t) lang # toClassicLoop lang d ts (Suc i) [] si)"
proof -
  have "toClassicLoop lang d ts (Suc i) ([x] @ []) q = [x] @ toClassicLoop lang d ts (Suc i) [] q" for x q
    by (rule toClassicLoop_append)
  then show ?thesis by (simp add: Let_def)
qed

lemma toClassicLoop_starts:
  "toClassicLoop lang d ts i [] p =
     map (\<lambda>(t, s). newToken (s + d) (scopes t) lang) (zip ts (correctedStarts ts i p))"
proof (induction ts arbitrary: i p)
  case Nil
  then show ?case by simp
next
  case (Cons t ts)
  have "(if startIndex t < p then p else startIndex t) = max p (startIndex t)"
    by simp
  then show ?case
    using Cons.IH by (simp add: toClassicLoop_Cons Let_def del: toClassicLoop.simps(2))
qed

lemma correctedStarts_length: "length (correctedStarts ts i p) = length ts"
  by (induction ts arbitrary: i p) (simp_all add: Let_def)

lemma correctedStarts_lower: "x \<in> set (correctedStarts ts (Suc i) p) \<Longrightarrow> p \<le> x"
proof (induction ts arbitrary: i p)
  case Nil
  then show ?case by simp
next
  case (Cons t ts)
  then show ?case by (fastforce simp add: Let_def)
qed

lemma correctedStarts_sorted_Suc: "sorted (correctedStarts ts (Suc i) p)"
proof (induction ts arbitrary: i p)
  case Nil
  then show ?case by simp
next
  case (Cons t ts)
  then show ?case by (auto simp add: Let_def dest: correctedStarts_lower)
qed

lemma correctedStarts_nonneg: "x \<in> set (correctedStarts ts 0 0) \<Longrightarrow> 0 \<le> x"
  by (cases ts) (auto simp add: Let_def dest: correctedStarts_lower)

lemma correctedStarts_sorted: "sorted (correctedStarts ts 0 0)"
  by (cases ts) (auto simp add: Let_def correctedStarts_sorted_Suc dest: correctedStarts_lower)

lemma correctedStarts_upper:
  "p \<le> M \<Longrightarrow> 0 \<le> M \<Longrightarrow> \<forall>t \<in> set ts. startIndex t \<le> M \<Longrightarrow>
   x \<in> set (correctedStarts ts i p) \<Longrightarrow> x \<le> M"
proof (induction ts arbitrary: i p)
  case Nil
  then show ?case by simp
next
  case (Cons t ts)
  define s where "s = (if i = 0 then 0 else max p (startIndex t))"
  have s: "s \<le> M" using Cons.prems(1,2,3) by (auto simp add: s_def)
  have "x = s \<or> x \<in> set (correctedStarts ts (Suc i) s)"
    using Cons.prems(4) by (simp add: Let_def s_def)
  then show ?case
  proof
    assume "x = s"
    then show ?thesis using s by simp
  next
    assume "x \<in> set (correctedStarts ts (Suc i) s)"
    then show ?thesis using Cons.IH [of s "Suc i"] s Cons.prems(2,3) by simp
  qed
qed

lemma toClassicTokens_starts:
  "toClassicTokens tokens lang d =
     map (\<lambda>(t, s). newToken (s + d) (scopes t) lang) (zip tokens (correctedStarts tokens 0 0))"
  by (simp add: toClassicTokens_def toClassicLoop_starts)

lemma toClassicTokens_length: "length (toClassicTokens tokens lang d) = length tokens"
  by (simp add: toClassicTokens_starts correctedStarts_length)

lemma map_zip_fst: "length xs = length ys \<Longrightarrow> map (\<lambda>(x, y). f x) (zip xs ys) = map f xs"
  by (induction xs ys rule: list_induct2) simp_all

lemma map_zip_snd: "length xs = length ys \<Longrightarrow> map (\<lambda>(x, y). g y) (zip xs ys) = map g ys"
  by (induction xs ys rule: list_induct2) simp_all

lemma toClassicTokens_types: "map tokenType (toClassicTokens tokens lang d) = map scopes tokens"
proof -
  have "map tokenType (toClassicTokens tokens lang d)
      = map (\<lambda>(t, s). scopes t) (zip tokens (correctedStarts tokens 0 0))"
    by (simp add: toClassicTokens_starts newToken_def comp_def case_prod_unfold)
  then show ?thesis by (simp add: map_zip_fst correctedStarts_length)
qed

lemma toClassicTokens_language: "tok \<in> set (toClassicTokens tokens lang d) \<Longrightarrow> language tok = lang"
  by (auto simp add: toClassicTokens_starts newToken_def)

lemma toClassicTokens_offsets:
  "map offset (toClassicTokens tokens lang d)
     = map (\<lambda>s. sint (word_of_int (s + d) :: 32 word)) (correctedStarts tokens 0 0)"
proof -
  have "map offset (toClassicTokens tokens lang d)
      = map (\<lambda>(t, s). sint (word_of_int (s + d) :: 32 word)) (zip tokens (correctedStarts tokens 0 0))"
    by (simp add: toClassicTokens_starts newToken_def comp_def case_prod_unfold)
  then show ?thesis by (simp add: map_zip_snd correctedStarts_length)
qed

lemma sint_in_range:
  "- (2 ^ 31) \<le> x \<Longrightarrow> x < 2 ^ 31 \<Longrightarrow> sint (word_of_int x :: 32 word) = x"
  by (simp add: sint_sbintrunc' signed_take_bit_int_eq_self)

lemma toClassicTokens_offsets_in_range:
  assumes "- (2 ^ 31) \<le> d" and "d < 2 ^ 31" and "\<forall>t \<in> set tokens. startIndex t + d < 2 ^ 31"
  shows "map offset (toClassicTokens tokens lang d) = map (\<lambda>s. s + d) (correctedStarts tokens 0 0)"
proof -
  have "sint (word_of_int (s + d) :: 32 word) = s + d" if "s \<in> set (correctedStarts tokens 0 0)" for s
  proof (rule sint_in_range)
    show "- (2 ^ 31) \<le> s + d" using correctedStarts_nonneg [OF that] assms(1) by simp
    have "s \<le> 2 ^ 31 - 1 - d"
      using assms(2,3) that
      by (intro correctedStarts_upper [of 0 _ tokens s 0]) auto
    then show "s + d < 2 ^ 31" by simp
  qed
  then show ?thesis by (simp add: toClassicTokens_offsets)
qed

text \<open>
  C1: the first emitted start index is claimed to equal offsetDelta and the emitted start
  indices never to decrease, for every offsetDelta. The token stores its offset as a
  signed 32-bit integer: with raw tokens at 0 and 1 and offsetDelta = 2147483647 the
  emitted offsets are 2147483647 and then -2147483648, and with offsetDelta = 4294967296
  the first emitted offset is 0.
\<close>

theorem classic_offsets_wrap:
  "map offset (toClassicTokens twoTokens ''lang'' 2147483647) = [2147483647, - 2147483648]
   \<and> offset (hd (toClassicTokens twoTokens ''lang'' 4294967296)) = 0"
  by (simp add: toClassicTokens_def twoTokens_def newToken_def)

text \<open>
  C1, as the code has it: for every raw token list and every offsetDelta the classic
  adapter emits one token per raw token, with the scopes of the raw tokens in order and
  the owning language, which \<open>tokenize\<close> takes from the adapter's language identifier,
  on every token; the first emitted start index is offsetDelta converted to a signed
  32-bit integer. When offsetDelta is at least -2^31 and offsetDelta and every raw start
  index plus offsetDelta are below 2^31, the first emitted start index is offsetDelta and
  the emitted start indices never decrease.
\<close>

theorem classic_tokens_sanitized:
  "length (toClassicTokens tokens lang offsetDelta) = length tokens
   \<and> map tokenType (toClassicTokens tokens lang offsetDelta) = map scopes tokens
   \<and> (\<forall>tok \<in> set (toClassicTokens tokens lang offsetDelta). language tok = lang)
   \<and> (tokens \<noteq> [] \<longrightarrow>
        offset (hd (toClassicTokens tokens lang offsetDelta)) = sint (word_of_int offsetDelta :: 32 word))
   \<and> (- (2 ^ 31) \<le> offsetDelta \<and> offsetDelta < 2 ^ 31
        \<and> (\<forall>t \<in> set tokens. startIndex t + offsetDelta < 2 ^ 31) \<longrightarrow>
        (tokens \<noteq> [] \<longrightarrow> offset (hd (toClassicTokens tokens lang offsetDelta)) = offsetDelta)
        \<and> (\<forall>i. 0 < i \<and> i < length tokens \<longrightarrow>
              offset (toClassicTokens tokens lang offsetDelta ! (i - 1))
                \<le> offset (toClassicTokens tokens lang offsetDelta ! i)))
   \<and> classicTokens (tokenize stateEquals adapter line state offsetDelta)
       = toClassicTokens (lineTokens (providerTokenize (actual adapter) line state))
           (identifierLanguage adapter) offsetDelta"
proof -
  let ?R = "toClassicTokens tokens lang offsetDelta"
  have len: "length ?R = length tokens" by (rule toClassicTokens_length)
  have types: "map tokenType ?R = map scopes tokens" by (rule toClassicTokens_types)
  have langs: "\<forall>tok \<in> set ?R. language tok = lang"
    using toClassicTokens_language by blast
  have first: "offset (hd ?R) = sint (word_of_int offsetDelta :: 32 word)" if ne: "tokens \<noteq> []"
  proof -
    obtain t ts where "tokens = t # ts" using ne by (cases tokens) auto
    then show ?thesis
      by (simp add: toClassicTokens_def toClassicLoop_Cons newToken_def del: toClassicLoop.simps(2))
  qed
  have ranged: "(tokens \<noteq> [] \<longrightarrow> offset (hd ?R) = offsetDelta)
      \<and> (\<forall>i. 0 < i \<and> i < length tokens \<longrightarrow> offset (?R ! (i - 1)) \<le> offset (?R ! i))"
    if lo: "- (2 ^ 31) \<le> offsetDelta" and hi: "offsetDelta < 2 ^ 31"
      and ts: "\<forall>t \<in> set tokens. startIndex t + offsetDelta < 2 ^ 31"
  proof -
    have offs: "map offset ?R = map (\<lambda>s. s + offsetDelta) (correctedStarts tokens 0 0)"
      using lo hi ts by (rule toClassicTokens_offsets_in_range)
    have srt: "sorted (map offset ?R)"
      unfolding offs using correctedStarts_sorted [of tokens]
      by (simp add: sorted_map sorted_wrt_iff_nth_less)
    have mono: "offset (?R ! (i - 1)) \<le> offset (?R ! i)" if "0 < i" "i < length tokens" for i
    proof -
      have "map offset ?R ! (i - 1) \<le> map offset ?R ! i"
        using that len srt by (intro sorted_nth_mono) simp_all
      then show ?thesis using that len by simp
    qed
    have hd: "offset (hd ?R) = offsetDelta" if "tokens \<noteq> []"
      using first [OF that] lo hi by (simp add: sint_in_range)
    show ?thesis using mono hd by blast
  qed
  have adapter: "classicTokens (tokenize stateEquals adapter line state offsetDelta)
       = toClassicTokens (lineTokens (providerTokenize (actual adapter) line state))
           (identifierLanguage adapter) offsetDelta"
    by (simp add: tokenize_def Let_def)
  show ?thesis
    using len types langs first ranged adapter by blast
qed

theorem classic_tokens_sanitized_witness:
  "outOfOrderTokens \<noteq> [] \<and> - (2 ^ 31) \<le> (7::int) \<and> (7::int) < 2 ^ 31
   \<and> map (\<lambda>t. startIndex t + 7) outOfOrderTokens = [7, 12, 9]
   \<and> map offset (toClassicTokens outOfOrderTokens ''lang'' 7) = [7, 12, 12]
   \<and> offset (hd (toClassicTokens outOfOrderTokens ''lang'' 7)) = 7
   \<and> offset (toClassicTokens outOfOrderTokens ''lang'' 7 ! (2 - 1))
       \<le> offset (toClassicTokens outOfOrderTokens ''lang'' 7 ! 2)
   \<and> length (toClassicTokens outOfOrderTokens ''lang'' 7) = 3
   \<and> map language (classicTokens (tokenize sampleStateEquals sampleAdapter ''ab'' 1 7))
       = [''lang'', ''lang'']"
  using classic_tokens_sanitized [where tokens = outOfOrderTokens and lang = "''lang''"
      and offsetDelta = 7 and stateEquals = sampleStateEquals and adapter = sampleAdapter
      and line = "''ab''" and state = 1]
  by (simp add: outOfOrderTokens_def toClassicTokens_def sampleAdapter_def twoTokens_def newToken_def)

section \<open>Proofs about the binary form\<close>

lemma toBinaryLoop_kept:
  "result \<noteq> [] \<Longrightarrow> last result = uint previous \<Longrightarrow>
   toBinaryLoop matchFn languageId d ts (Suc i) result p =
     result @ concat (map (encodeStart matchFn languageId d)
       (zip (keptAfter (\<lambda>t. matchFn languageId (scopes t)) previous ts)
            (correctedStarts (keptAfter (\<lambda>t. matchFn languageId (scopes t)) previous ts) (Suc j) p)))"
proof (induction ts arbitrary: i j result p previous)
  case Nil
  then show ?case by simp
next
  case (Cons t ts)
  have nth: "result ! (length result - 1) = uint previous"
    using Cons.prems by (simp add: last_conv_nth)
  show ?case
  proof (cases "matchFn languageId (scopes t) = previous")
    case True
    then show ?thesis
      using Cons.prems nth Cons.IH [of result previous "Suc i" p j] by simp
  next
    case False
    define si where "si = (if startIndex t < p then p else startIndex t)"
    define m where "m = matchFn languageId (scopes t)"
    have si_max: "si = max p (startIndex t)" by (simp add: si_def)
    have "toBinaryLoop matchFn languageId d (t # ts) (Suc i) result p =
            toBinaryLoop matchFn languageId d ts (Suc (Suc i)) (result @ [si + d, uint m]) si"
      using False Cons.prems nth by (auto simp add: si_def m_def Let_def word_uint_eq_iff)
    also have "\<dots> = (result @ [si + d, uint m]) @ concat (map (encodeStart matchFn languageId d)
       (zip (keptAfter (\<lambda>t. matchFn languageId (scopes t)) m ts)
            (correctedStarts (keptAfter (\<lambda>t. matchFn languageId (scopes t)) m ts) (Suc (Suc j)) si)))"
      by (rule Cons.IH) simp_all
    finally show ?thesis
      using False by (simp add: Let_def si_max m_def)
  qed
qed

lemma toBinaryLoop_starts:
  "toBinaryLoop matchFn languageId d tokens 0 [] 0 =
     concat (map (encodeStart matchFn languageId d)
       (zip (keptTokens (\<lambda>t. matchFn languageId (scopes t)) tokens)
            (correctedStarts (keptTokens (\<lambda>t. matchFn languageId (scopes t)) tokens) 0 0)))"
proof (cases tokens)
  case Nil
  then show ?thesis by simp
next
  case (Cons t ts)
  have "toBinaryLoop matchFn languageId d (t # ts) 0 [] 0 =
          toBinaryLoop matchFn languageId d ts (Suc 0) [d, uint (matchFn languageId (scopes t))] 0"
    by simp
  also have "\<dots> = [d, uint (matchFn languageId (scopes t))] @ concat (map (encodeStart matchFn languageId d)
       (zip (keptAfter (\<lambda>t. matchFn languageId (scopes t)) (matchFn languageId (scopes t)) ts)
            (correctedStarts (keptAfter (\<lambda>t. matchFn languageId (scopes t)) (matchFn languageId (scopes t)) ts) (Suc 0) 0)))"
    by (rule toBinaryLoop_kept) simp_all
  finally show ?thesis
    using Cons by (simp add: Let_def)
qed

lemma encodeWord_newToken:
  "encodeWord matchFn languageId (newToken x sc lang) = [word_of_int x, matchFn languageId sc]"
  by (simp add: encodeWord_def newToken_def)

lemma encode_word_of_int:
  "map word_of_int (concat (map (encodeStart matchFn languageId d) zs)) =
     concat (map (encodeWord matchFn languageId) (map (\<lambda>(t, s). newToken (s + d) (scopes t) lang) zs))"
  by (induction zs) (auto simp add: encodeWord_newToken)

lemma toBinaryTokens_classic:
  "toBinaryTokens matchFn languageId tokens d =
     concat (map (encodeWord matchFn languageId)
       (toClassicTokens (keptTokens (\<lambda>t. matchFn languageId (scopes t)) tokens) lang d))"
  unfolding toBinaryTokens_def toBinaryLoop_starts toClassicTokens_starts
  by (rule encode_word_of_int)

lemma length_encoded: "length (concat (map (encodeStart matchFn languageId d) zs)) = 2 * length zs"
  by (induction zs) auto

lemma startIndices_encoded:
  "startIndices (concat (map (encodeStart matchFn languageId d) zs)) = map (\<lambda>(t, s). s + d) zs"
  by (induction zs) auto

lemma startIndices_map: "startIndices (map f xs) = map f (startIndices xs)"
  by (induction xs rule: startIndices.induct) simp_all

lemma toBinaryLoop_startIndices:
  "startIndices (toBinaryLoop matchFn languageId d tokens 0 [] 0)
     = map (\<lambda>s. s + d) (correctedStarts (keptTokens (\<lambda>t. matchFn languageId (scopes t)) tokens) 0 0)"
  by (simp add: toBinaryLoop_starts startIndices_encoded map_zip_snd correctedStarts_length)

lemma toBinaryLoop_length:
  "length (toBinaryLoop matchFn languageId d tokens 0 [] 0)
     = 2 * length (keptTokens (\<lambda>t. matchFn languageId (scopes t)) tokens)"
  by (simp add: toBinaryLoop_starts length_encoded correctedStarts_length)

lemma keptAfter_runs: "Suc (length (keptAfter meta p ts)) = runs (p # map meta ts)"
  by (induction ts arbitrary: p) auto

lemma keptTokens_runs: "length (keptTokens meta ts) = runs (map meta ts)"
  by (cases ts) (simp_all add: keptAfter_runs)

lemma keptAfter_same: "\<forall>t \<in> set ts. meta t = md \<Longrightarrow> keptAfter meta md ts = []"
  by (induction ts) simp_all

lemma keptAfter_subset: "set (keptAfter meta p ts) \<subseteq> set ts"
  by (induction ts arbitrary: p) auto

lemma keptTokens_subset: "set (keptTokens meta ts) \<subseteq> set ts"
  using keptAfter_subset by (cases ts) fastforce+

lemma runs_le: "runs xs \<le> length xs"
  by (induction xs rule: runs.induct) (auto split: if_splits)

lemma runs_less:
  "Suc k < length xs \<Longrightarrow> xs ! k = xs ! Suc k \<Longrightarrow> runs xs < length xs"
proof (induction xs arbitrary: k rule: runs.induct)
  case 1
  then show ?case by simp
next
  case (2 x)
  then show ?case by simp
next
  case (3 x y zs)
  show ?case
  proof (cases k)
    case 0
    then show ?thesis using "3.prems" runs_le [of "y # zs"] by simp
  next
    case (Suc k')
    then have "runs (y # zs) < length (y # zs)"
      using "3.prems" "3.IH" [of k'] by (cases "x = y") simp_all
    then show ?thesis by simp
  qed
qed

lemma sorted_word_of_int:
  "sorted xs \<Longrightarrow> \<forall>x \<in> set xs. 0 \<le> x \<and> x < 2 ^ 32 \<Longrightarrow>
   sorted (map (word_of_int :: int \<Rightarrow> 32 word) xs)"
proof (induction xs)
  case Nil
  then show ?case by simp
next
  case (Cons x xs)
  have "(word_of_int x :: 32 word) \<le> word_of_int y" if "y \<in> set xs" for y
  proof -
    have "x \<le> y" "0 \<le> x" "y < 2 ^ 32" "0 \<le> y" "x < 2 ^ 32"
      using Cons.prems that by auto
    then show ?thesis
      by (simp add: word_le_def uint_word_of_int_eq take_bit_int_eq_self)
  qed
  then show ?case using Cons by auto
qed

lemma toBinaryTokens_single:
  assumes ne: "tokens \<noteq> []" and same: "\<forall>t \<in> set tokens. matchFn languageId (scopes t) = md"
  shows "toBinaryTokens matchFn languageId tokens d = [word_of_int d, md]"
proof -
  obtain t ts where ts: "tokens = t # ts" using ne by (cases tokens) auto
  then have "keptTokens (\<lambda>t. matchFn languageId (scopes t)) tokens = [t]"
    using same keptAfter_same [of ts "\<lambda>t. matchFn languageId (scopes t)" md] by simp
  then show ?thesis
    using ts same by (simp add: toBinaryTokens_def toBinaryLoop_starts Let_def)
qed

lemma toBinaryTokens_hd:
  assumes ne: "tokens \<noteq> []"
  shows "hd (toBinaryTokens matchFn languageId tokens d) = word_of_int d"
proof -
  obtain t ts where "tokens = t # ts" using ne by (cases tokens) auto
  then show ?thesis
    by (simp add: toBinaryTokens_def toBinaryLoop_starts Let_def)
qed

text \<open>
  C2: the binary form is claimed to give every emitted pair the start index that the
  classic form assigns to the same raw token, also across skipped tokens. With raw tokens
  at 0, 10 and 5, the first two of equal metadata, the classic form assigns 10 to the
  third token while the binary form emits it at 5: the skipped token at 10 never reached
  the clamping baseline.
\<close>

theorem binary_start_differs_from_classic:
  "toBinaryTokens sampleMatch 1 skippedTokens 0 = [0, 1, 5, 2]
   \<and> map offset (toClassicTokens skippedTokens ''lang'' 0) = [0, 10, 10]"
  by (simp add: toBinaryTokens_def toClassicTokens_def skippedTokens_def sampleMatch_def newToken_def)

text \<open>
  C2, as the code has it: the binary stream is the classic sanitation run over the raw
  tokens that survive deduplication, each corrected start index stored as an unsigned
  32-bit number next to the token's metadata. Skipped tokens take no part in the clamping.
\<close>

theorem binary_tokens_follow_classic_on_kept:
  "toBinaryTokens matchFn languageId tokens offsetDelta =
     concat (map (encodeWord matchFn languageId)
       (toClassicTokens (keptTokens (\<lambda>t. matchFn languageId (scopes t)) tokens) lang offsetDelta))"
  by (rule toBinaryTokens_classic)

text \<open>
  C3: raw tokens that all resolve to one metadata value are claimed to give one pair whose
  start equals the first raw token's corrected start index. The start is stored as an
  unsigned 32-bit number: with offsetDelta = -1 the corrected start index of the first
  token is -1 and the pair holds 4294967295.
\<close>

theorem binary_single_pair_start_wraps:
  "toBinaryTokens sampleMatch 1 sameStyleTokens (- 1) = [4294967295, 1]
   \<and> uint (hd (toBinaryTokens sampleMatch 1 sameStyleTokens (- 1))) = 4294967295
   \<and> offset (hd (toClassicTokens sameStyleTokens ''lang'' (- 1))) = - 1"
  by (simp add: toBinaryTokens_def toClassicTokens_def sameStyleTokens_def sampleMatch_def newToken_def
      uint_word_ariths)

text \<open>
  C3, as the code has it: raw tokens that all resolve to one metadata value give exactly
  one pair, whose start is the first raw token's corrected start index, offsetDelta,
  converted to an unsigned 32-bit number; it equals offsetDelta when offsetDelta is not
  negative and below 2^32. The length of the encoded stream is twice the number of maximal
  runs of equal metadata, and when two neighbouring tokens share their metadata the
  stream is shorter than two entries per raw token.
\<close>

theorem binary_run_compression:
  "(tokens \<noteq> [] \<and> (\<forall>t \<in> set tokens. matchFn languageId (scopes t) = md) \<longrightarrow>
      toBinaryTokens matchFn languageId tokens offsetDelta = [word_of_int offsetDelta, md])
   \<and> (tokens \<noteq> [] \<and> (\<forall>t \<in> set tokens. matchFn languageId (scopes t) = md)
        \<and> 0 \<le> offsetDelta \<and> offsetDelta < 2 ^ 32 \<longrightarrow>
      map uint (toBinaryTokens matchFn languageId tokens offsetDelta) = [offsetDelta, uint md])
   \<and> length (toBinaryTokens matchFn languageId tokens offsetDelta) =
       2 * runs (map (\<lambda>t. matchFn languageId (scopes t)) tokens)
   \<and> ((\<exists>k. Suc k < length tokens \<and>
             matchFn languageId (scopes (tokens ! k)) = matchFn languageId (scopes (tokens ! Suc k))) \<longrightarrow>
        length (toBinaryTokens matchFn languageId tokens offsetDelta) < 2 * length tokens)"
proof -
  let ?meta = "\<lambda>t. matchFn languageId (scopes t)"
  have len: "length (toBinaryTokens matchFn languageId tokens offsetDelta) = 2 * runs (map ?meta tokens)"
    by (simp add: toBinaryTokens_def toBinaryLoop_length keptTokens_runs)
  have one: "toBinaryTokens matchFn languageId tokens offsetDelta = [word_of_int offsetDelta, md]"
    if "tokens \<noteq> []" "\<forall>t \<in> set tokens. ?meta t = md"
    using that by (rule toBinaryTokens_single)
  have ranged: "map uint (toBinaryTokens matchFn languageId tokens offsetDelta) = [offsetDelta, uint md]"
    if "tokens \<noteq> []" "\<forall>t \<in> set tokens. ?meta t = md" "0 \<le> offsetDelta" "offsetDelta < 2 ^ 32"
    using that one by (simp add: uint_word_of_int_eq take_bit_int_eq_self)
  have less: "length (toBinaryTokens matchFn languageId tokens offsetDelta) < 2 * length tokens"
    if "Suc k < length tokens" "?meta (tokens ! k) = ?meta (tokens ! Suc k)" for k
    using that runs_less [of k "map ?meta tokens"] len by simp
  show ?thesis using len one ranged less by blast
qed

theorem binary_run_compression_witness:
  "sameStyleTokens \<noteq> [] \<and> map (\<lambda>t. sampleMatch 1 (scopes t)) sameStyleTokens = [1, 1, 1]
   \<and> (0::int) \<le> 4 \<and> (4::int) < 2 ^ 32
   \<and> Suc 0 < length sameStyleTokens
   \<and> sampleMatch 1 (scopes (sameStyleTokens ! 0)) = sampleMatch 1 (scopes (sameStyleTokens ! Suc 0))
   \<and> toBinaryTokens sampleMatch 1 sameStyleTokens 4 = [4, 1]
   \<and> map uint (toBinaryTokens sampleMatch 1 sameStyleTokens 4) = [4, 1]
   \<and> length (toBinaryTokens sampleMatch 1 sameStyleTokens 4) < 2 * length sameStyleTokens"
  using binary_run_compression [of sameStyleTokens sampleMatch 1 1 4]
  by (simp add: sameStyleTokens_def sampleMatch_def toBinaryTokens_def)

text \<open>
  C10: the stored start indices are claimed to be non-decreasing, with the first equal to
  offsetDelta, for every offsetDelta. With raw tokens at 0 and 1 the array holds
  4294967295 and then 0, for offsetDelta = -1 as for offsetDelta = 4294967295.
\<close>

theorem binary_starts_wrap:
  "startIndices (toBinaryTokens sampleMatch 1 twoTokens (- 1)) = [4294967295, 0]
   \<and> \<not> sorted (startIndices (toBinaryTokens sampleMatch 1 twoTokens (- 1)))
   \<and> startIndices (toBinaryTokens sampleMatch 1 twoTokens 4294967295) = [4294967295, 0]
   \<and> \<not> sorted (startIndices (toBinaryTokens sampleMatch 1 twoTokens 4294967295))"
  by (simp add: toBinaryTokens_def twoTokens_def sampleMatch_def)

text \<open>
  C10, as the code has it: for every raw token list and offsetDelta the encoded stream has
  even length, its first entry is the stored form of offsetDelta when the input is not
  empty, and the start indices are non-decreasing as numbers before they are stored, even
  though skipped tokens do not advance the clamping baseline. The stored unsigned values
  are non-decreasing, and the first one equals offsetDelta, when offsetDelta is not
  negative and offsetDelta and every raw start index plus offsetDelta stay below 2^32.
\<close>

theorem binary_stream_well_formed:
  "even (length (toBinaryTokens matchFn languageId tokens offsetDelta))
   \<and> (tokens \<noteq> [] \<longrightarrow> hd (toBinaryTokens matchFn languageId tokens offsetDelta) = word_of_int offsetDelta)
   \<and> sorted (startIndices (toBinaryLoop matchFn languageId offsetDelta tokens 0 [] 0))
   \<and> (0 \<le> offsetDelta \<and> offsetDelta < 2 ^ 32 \<and> (\<forall>t \<in> set tokens. startIndex t + offsetDelta < 2 ^ 32) \<longrightarrow>
        sorted (startIndices (toBinaryTokens matchFn languageId tokens offsetDelta))
        \<and> (tokens \<noteq> [] \<longrightarrow> uint (hd (toBinaryTokens matchFn languageId tokens offsetDelta)) = offsetDelta))"
proof -
  let ?meta = "\<lambda>t. matchFn languageId (scopes t)"
  let ?cs = "correctedStarts (keptTokens ?meta tokens) 0 0"
  have even: "even (length (toBinaryTokens matchFn languageId tokens offsetDelta))"
    by (simp add: toBinaryTokens_def toBinaryLoop_length)
  have first: "hd (toBinaryTokens matchFn languageId tokens offsetDelta) = word_of_int offsetDelta"
    if "tokens \<noteq> []"
    using that by (rule toBinaryTokens_hd)
  have starts: "startIndices (toBinaryLoop matchFn languageId offsetDelta tokens 0 [] 0)
      = map (\<lambda>s. s + offsetDelta) ?cs"
    by (rule toBinaryLoop_startIndices)
  have ints: "sorted (startIndices (toBinaryLoop matchFn languageId offsetDelta tokens 0 [] 0))"
    unfolding starts using correctedStarts_sorted [of "keptTokens ?meta tokens"]
    by (simp add: sorted_map sorted_wrt_iff_nth_less)
  have ranged: "sorted (startIndices (toBinaryTokens matchFn languageId tokens offsetDelta))"
    if d: "0 \<le> offsetDelta" "offsetDelta < 2 ^ 32" and ts: "\<forall>t \<in> set tokens. startIndex t + offsetDelta < 2 ^ 32"
  proof -
    have kept: "\<forall>t \<in> set (keptTokens ?meta tokens). startIndex t \<le> 2 ^ 32 - 1 - offsetDelta"
      using ts keptTokens_subset [of ?meta tokens] by fastforce
    have up: "s \<le> 2 ^ 32 - 1 - offsetDelta" if "s \<in> set ?cs" for s
      using d kept that
      by (intro correctedStarts_upper [of 0 _ "keptTokens ?meta tokens" s 0]) simp_all
    have "\<forall>x \<in> set (map (\<lambda>s. s + offsetDelta) ?cs). 0 \<le> x \<and> x < 2 ^ 32"
    proof
      fix x assume "x \<in> set (map (\<lambda>s. s + offsetDelta) ?cs)"
      then obtain s where s: "s \<in> set ?cs" "x = s + offsetDelta" by auto
      then show "0 \<le> x \<and> x < 2 ^ 32"
        using up [of s] correctedStarts_nonneg [of s "keptTokens ?meta tokens"] d by simp
    qed
    then have "sorted (map (word_of_int :: int \<Rightarrow> 32 word)
        (startIndices (toBinaryLoop matchFn languageId offsetDelta tokens 0 [] 0)))"
      using ints unfolding starts by (intro sorted_word_of_int)
    then show ?thesis by (simp add: toBinaryTokens_def startIndices_map)
  qed
  have uint_first: "uint (hd (toBinaryTokens matchFn languageId tokens offsetDelta)) = offsetDelta"
    if "0 \<le> offsetDelta" "offsetDelta < 2 ^ 32" "tokens \<noteq> []"
    using that first by (simp add: uint_word_of_int_eq take_bit_int_eq_self)
  show ?thesis using even first ints ranged uint_first by blast
qed

theorem binary_stream_well_formed_witness:
  "skippedTokens \<noteq> [] \<and> (0::int) \<le> 3 \<and> (3::int) < 2 ^ 32
   \<and> map (\<lambda>t. startIndex t + 3) skippedTokens = [3, 13, 8]
   \<and> toBinaryTokens sampleMatch 1 skippedTokens 3 = [3, 1, 8, 2]
   \<and> sorted (startIndices (toBinaryTokens sampleMatch 1 skippedTokens 3))
   \<and> uint (hd (toBinaryTokens sampleMatch 1 skippedTokens 3)) = 3"
  using binary_stream_well_formed [of sampleMatch 1 skippedTokens 3]
  by (simp add: skippedTokens_def sampleMatch_def toBinaryTokens_def)

section \<open>End state of both adapter forms\<close>

text \<open>
  C4: when the end state returned by the grammar is equal, by its own equals method, to
  the input state, tokenize and tokenize2 return the input state reference itself;
  otherwise they return the grammar's end state.
\<close>

theorem adapters_reuse_equal_state:
  "(stateEquals (endState (providerTokenize (actual adapter) line state)) state \<longrightarrow>
      classicEndState (tokenize stateEquals adapter line state offsetDelta) = state
      \<and> binaryEndState (tokenize2 stateEquals adapter line state offsetDelta) = state)
   \<and> (\<not> stateEquals (endState (providerTokenize (actual adapter) line state)) state \<longrightarrow>
      classicEndState (tokenize stateEquals adapter line state offsetDelta)
        = endState (providerTokenize (actual adapter) line state)
      \<and> binaryEndState (tokenize2 stateEquals adapter line state offsetDelta)
        = endState (providerTokenize (actual adapter) line state))"
  by (simp add: tokenize_def tokenize2_def Let_def)

theorem adapters_reuse_equal_state_witness:
  "sampleStateEquals (endState (providerTokenize (actual sampleAdapter) ''ab'' 1)) 1
   \<and> endState (providerTokenize (actual sampleAdapter) ''ab'' 1) = 2
   \<and> classicEndState (tokenize sampleStateEquals sampleAdapter ''ab'' 1 0) = 1
   \<and> binaryEndState (tokenize2 sampleStateEquals sampleAdapter ''ab'' 1 0) = 1
   \<and> \<not> sampleStateEquals (endState (providerTokenize (actual sampleAdapter) ''ab'' 9)) 9
   \<and> classicEndState (tokenize sampleStateEquals sampleAdapter ''ab'' 9 0) = 10
   \<and> binaryEndState (tokenize2 sampleStateEquals sampleAdapter ''ab'' 9 0) = 10"
  using adapters_reuse_equal_state [of sampleStateEquals sampleAdapter "''ab''" 1 0]
    adapters_reuse_equal_state [of sampleStateEquals sampleAdapter "''ab''" 9 0]
  by (simp add: sampleStateEquals_def sampleAdapter_def)

section \<open>Provider registration\<close>

text \<open>
  C5: registering a thenable language definition is claimed to succeed at once, without
  an error and with no effect but the registration. The branch for thenables calls the
  global \<open>alert()\<close> first: where the host defines it a dialog opens before the pending
  tokenizer is registered, and where it does not the call raises and nothing is
  registered. The branch for immediate definitions has no such call.
\<close>

theorem thenable_registration_alerts:
  "setMonarchTokensProvider sampleCompile \<lparr>alertDefined = True\<rparr> ''x'' (Thenable ''pending'')
     = Inr (Disposable ''x'', [Alert, RegisterPromise ''x''])
   \<and> setMonarchTokensProvider sampleCompile \<lparr>alertDefined = False\<rparr> ''x'' (Thenable ''pending'')
     = Inl (ReferenceError ''alert'')
   \<and> setMonarchTokensProvider sampleCompile \<lparr>alertDefined = False\<rparr> ''x'' (Immediate ''def'')
     = Inr (Disposable ''x'', [Register ''x''])"
  by (simp add: setMonarchTokensProvider_def sampleCompile_def)

section \<open>Resolving color values\<close>

text \<open>
  C6: null resolves to undefined; a string starting with \<open>#\<close> to the hex color parsed
  from it; any other string to \<open>theme.getColor\<close> of it, in one step; a color to
  itself; a function to its result on the theme.
\<close>

theorem resolveColorValue_cases:
  "resolveColorValue fromHex NullValue theme = None
   \<and> resolveColorValue fromHex (StringValue (CHR ''#'' # s)) theme = Some (fromHex (CHR ''#'' # s))
   \<and> (t = [] \<or> hd t \<noteq> CHR ''#'' \<longrightarrow> resolveColorValue fromHex (StringValue t) theme = getColor theme t)
   \<and> resolveColorValue fromHex (ColorObject c) theme = Some c
   \<and> resolveColorValue fromHex (ColorFunction f) theme = f theme"
  by (auto simp add: resolveColorValue_def)

theorem resolveColorValue_cases_witness:
  "hd ''a'' \<noteq> CHR ''#''
   \<and> resolveColorValue hexText (StringValue ''a'') blueDarkTheme = Some ''#0000FF''
   \<and> resolveColorValue hexText (StringValue ''#FF0000'') blueDarkTheme = Some ''#FF0000''
   \<and> resolveColorValue hexText (ColorFunction (\<lambda>th. getColor th ''zz'')) blueDarkTheme = None"
  using resolveColorValue_cases [where fromHex = hexText and theme = blueDarkTheme and s = "''FF0000''"
      and t = "''a''" and c = "''c''" and f = "\<lambda>th. getColor th ''zz''"]
  by (simp add: hexText_def blueDarkTheme_def)

section \<open>Default colors\<close>



text \<open>
  C8: with "a" registered with dark default "#FF0000" and "b" with dark default "a",
  resolving "b" is claimed to give #FF0000 against any dark theme. A dark theme that
  defines its own color for "a" gives that color instead.
\<close>

theorem reference_default_follows_theme_override:
  "type blueDarkTheme = DARK
   \<and> resolveDefaultColor hexText (registryAfter redThenReference) ''b'' blueDarkTheme = Some ''#0000FF''
   \<and> hexText ''#FF0000'' = ''#FF0000''"
  by (simp add: registryAfter_def redThenReference_def registerColor_def newColorRegistry_def
      emptyObject_def assign_def getProperty_def
      blueDarkTheme_def resolveDefaultColor_def resolveColorValue_def hexText_def)

text \<open>
  C8, as the code has it: after the two registrations, resolving "b" against a dark theme
  gives \<open>theme.getColor("a")\<close>; the registry default of "a" is #FF0000, so the result
  is #FF0000 for a theme that answers "a" with that default.
\<close>

theorem reference_default_resolves_through_theme:
  assumes "dark dA = StringValue ''#FF0000''" and "dark dB = StringValue ''a''" and "type theme = DARK"
  shows "resolveDefaultColor fromHex
           (snd (registerColor ''b'' (Some dB) descB tB mB
             (snd (registerColor ''a'' (Some dA) descA tA mA regStart)))) ''b'' theme
         = getColor theme ''a''
       \<and> resolveDefaultColor fromHex
           (snd (registerColor ''b'' (Some dB) descB tB mB
             (snd (registerColor ''a'' (Some dA) descA tA mA regStart)))) ''a'' theme
         = Some (fromHex ''#FF0000'')
       \<and> (getColor theme ''a'' = Some (fromHex ''#FF0000'') \<longrightarrow>
           resolveDefaultColor fromHex
             (snd (registerColor ''b'' (Some dB) descB tB mB
               (snd (registerColor ''a'' (Some dA) descA tA mA regStart)))) ''b'' theme
           = Some (fromHex ''#FF0000''))"
  using assms
  by (simp add: registerColor_def resolveDefaultColor_def resolveColorValue_def update_conv'
      assign_def getProperty_def)

theorem reference_default_resolves_through_theme_witness:
  "type defaultingDarkTheme = DARK
   \<and> getColor defaultingDarkTheme ''a'' = Some (hexText ''#FF0000'')
   \<and> resolveDefaultColor hexText
        (snd (registerColor ''b'' (Some \<lparr>light = NullValue, dark = StringValue ''a'', hc = NullValue\<rparr>) ''as a'' False None
          (snd (registerColor ''a'' (Some \<lparr>light = NullValue, dark = StringValue ''#FF0000'', hc = NullValue\<rparr>) ''red'' False None
             newColorRegistry)))) ''b'' defaultingDarkTheme
      = Some ''#FF0000''"
  using reference_default_resolves_through_theme
    [where dA = "\<lparr>light = NullValue, dark = StringValue ''#FF0000'', hc = NullValue\<rparr>"
       and dB = "\<lparr>light = NullValue, dark = StringValue ''a'', hc = NullValue\<rparr>"
       and theme = defaultingDarkTheme and fromHex = hexText and descA = "''red''" and descB = "''as a''"
       and tA = False and tB = False and mA = None and mB = None and regStart = newColorRegistry]
  by (simp add: defaultingDarkTheme_def hexText_def registryAfter_def redThenReference_def
      registerColor_def newColorRegistry_def resolveDefaultColor_def resolveColorValue_def
      emptyObject_def assign_def getProperty_def)

section \<open>Deregistration\<close>

text \<open>
  C9: after \<open>deregisterColor(id)\<close> the contribution and the schema entries of the id are
  to be gone, and a second call is to be a no-op. \<open>registerColor\<close> pushes the id onto
  the reference enumeration on every call, also when it overwrites, and
  \<open>deregisterColor\<close> splices out the first occurrence only: after two registrations of
  "a" and one deregistration no contribution is left, yet the enumeration still lists "a",
  beside the description of the second registration, and a second deregistration changes
  the enumeration again. For the id \<open>__proto__\<close> the registration replaces the prototype
  of \<open>colorsById\<close>, which \<open>delete\<close> does not undo: the default still resolves after
  the deregistration.
\<close>

theorem duplicate_registration_survives_deregister:
  "map colorId (getColors twiceRegistered) = [''a'']
   \<and> map colorId (getColors (deregisterColor ''a'' twiceRegistered)) = []
   \<and> colorReferenceEnum (deregisterColor ''a'' twiceRegistered) = [''a'']
   \<and> colorReferenceEnumDescriptions (deregisterColor ''a'' twiceRegistered) = [''second'']
   \<and> colorReferenceEnum (deregisterColor ''a'' (deregisterColor ''a'' twiceRegistered)) = []
   \<and> map colorId (getColors protoRegistered) = []
   \<and> resolveDefaultColor hexText (deregisterColor ''__proto__'' protoRegistered) ''__proto__''
         blueDarkTheme = Some ''#111111''"
  by (simp add: twiceRegistered_def protoRegistered_def registryAfter_def registerColor_def
      newColorRegistry_def emptyObject_def assign_def deleteProperty_def getProperty_def
      objectKeys_def deregisterColor_def getColors_def spliceOut_def paletteDefaults_def
      resolveDefaultColor_def resolveColorValue_def blueDarkTheme_def)

end
